theory Spec2Isabelle
  imports Complex_Main "HOL-Library.Sublist"
begin

section \<open>Data model\<close>

text \<open>
  The server (the third program of \<^verbatim>\<open>src/README.md\<close>, lines 214-457) declares
  \<^verbatim>\<open>interface Student { student_id; firstname; lastname; nickname }\<close>, all strings.
  A request body is a \<open>Student\<close>; a stored document is a \<open>Student\<close> with the
  \<^verbatim>\<open>_id\<close> the driver gave it (field \<open>oid\<close> here, since an Isabelle name cannot begin
  with an underscore). Strings are byte strings.

  An ObjectId is modelled by its canonical text: 24 lower-case hexadecimal digits.
\<close>

type_synonym oid = string

record Student =
  student_id :: string
  firstname :: string
  lastname :: string
  nickname :: string

record StudentDoc = Student +
  oid :: oid

text \<open>The collection \<^verbatim>\<open>students\<close>, in its natural (insertion) order.\<close>

type_synonym collection = "StudentDoc list"

record PaginationData =
  total :: nat
  page :: nat
  limit :: nat
  totalPages :: nat

record StudentsPage =
  students :: "StudentDoc list"
  pagination :: PaginationData

text \<open>
  What a handler does with a request: it returns a value (serialised by the framework
  with status 200), it returns an explicit \<^verbatim>\<open>new Response(JSON.stringify({message}), {status})\<close>,
  or it lets an \<^verbatim>\<open>Error\<close> escape to the framework.
\<close>

datatype 'a outcome = Returned 'a | Response nat string | Thrown string

text \<open>
  What a \<^verbatim>\<open>try\<close> block can throw: an \<^verbatim>\<open>Error\<close> with its message, or some other
  value. None of the modelled primitives throws a non-\<^verbatim>\<open>Error\<close>; the constructor is there
  for the second branch of each \<^verbatim>\<open>catch\<close>.
\<close>

datatype thrown = Error string | NonError

section \<open>The record store\<close>

text \<open>
  The primitives of the MongoDB collection that the handlers call, on a reachable store.
  \<^verbatim>\<open>findOne(filter)\<close> gives the first document satisfying the filter.
\<close>

definition findOne :: "(StudentDoc \<Rightarrow> bool) \<Rightarrow> collection \<Rightarrow> StudentDoc option" where
  "findOne flt docs = List.find flt docs"

definition countDocuments :: "(StudentDoc \<Rightarrow> bool) \<Rightarrow> collection \<Rightarrow> nat" where
  "countDocuments flt docs = length (filter flt docs)"

text \<open>\<^verbatim>\<open>find(filter).skip(skip).limit(limit).toArray()\<close>, for a positive limit.\<close>

definition find_skip_limit ::
  "(StudentDoc \<Rightarrow> bool) \<Rightarrow> nat \<Rightarrow> nat \<Rightarrow> collection \<Rightarrow> StudentDoc list" where
  "find_skip_limit flt skip lmt docs = take lmt (drop skip (filter flt docs))"

definition with_id :: "oid \<Rightarrow> Student \<Rightarrow> StudentDoc" where
  "with_id i body = \<lparr>student_id = student_id body, firstname = firstname body,
     lastname = lastname body, nickname = nickname body, oid = i\<rparr>"

text \<open>
  \<^verbatim>\<open>insertOne(body)\<close>: the driver generates the \<^verbatim>\<open>_id\<close> (\<open>new_id\<close>, an input of the
  model) and the store appends the document; the store's index on \<^verbatim>\<open>_id\<close> refuses an
  identifier it already holds, with the server's error E11000 for the collection
  \<^verbatim>\<open>students.students\<close>. On a reachable store this is the one failure of an insert that
  is modelled; the \<^verbatim>\<open>catch\<close> of the handler answers whatever error the driver throws.

  The unique index on \<^verbatim>\<open>student_id\<close> that \<^verbatim>\<open>createIndexes\<close> asks the store for
  (lines 232-241) is not part of the model: when a handler reaches \<^verbatim>\<open>insertOne\<close> or
  \<^verbatim>\<open>updateOne\<close>, its own lookup has already excluded the documents the index would
  refuse.
\<close>

definition duplicate_key_msg :: "oid \<Rightarrow> string" where
  "duplicate_key_msg i =
     ''E11000 duplicate key error collection: students.students index: _id_ dup key: { _id: ObjectId(''
     @ [CHR 0x27] @ i @ [CHR 0x27] @ '') }''"

definition insertOne :: "oid \<Rightarrow> Student \<Rightarrow> collection \<Rightarrow> thrown + collection" where
  "insertOne new_id body docs =
     (if new_id \<in> oid ` set docs then Inl (Error (duplicate_key_msg new_id))
      else Inr (docs @ [with_id new_id body]))"

text \<open>
  \<^verbatim>\<open>updateOne({_id: x}, {$set: body})\<close>: the first document with that \<^verbatim>\<open>_id\<close> gets the
  four fields of the body; the result is \<^verbatim>\<open>matchedCount\<close> and the new collection.
\<close>

fun updateOne :: "oid \<Rightarrow> Student \<Rightarrow> collection \<Rightarrow> nat \<times> collection" where
  "updateOne x body [] = (0, [])"
| "updateOne x body (d # ds) =
     (if oid d = x then (1, with_id (oid d) body # ds)
      else (case updateOne x body ds of (n, ds') \<Rightarrow> (n, d # ds')))"

text \<open>\<^verbatim>\<open>deleteOne({_id: x})\<close>: \<^verbatim>\<open>deletedCount\<close> and the new collection.\<close>

fun deleteOne :: "oid \<Rightarrow> collection \<Rightarrow> nat \<times> collection" where
  "deleteOne x [] = (0, [])"
| "deleteOne x (d # ds) =
     (if oid d = x then (1, ds)
      else (case deleteOne x ds of (n, ds') \<Rightarrow> (n, d # ds')))"

section \<open>Query parameters and pagination\<close>

text \<open>
  \<^verbatim>\<open>Number(query?.page) || 1\<close>: the model's input is the value of \<^verbatim>\<open>Number(...)\<close>,
  \<open>None\<close> for \<^verbatim>\<open>NaN\<close> (parameter absent or not a number) and \<open>Some n\<close> for the
  non-negative integer \<open>n\<close>; \<^verbatim>\<open>NaN\<close> and \<^verbatim>\<open>0\<close> are falsy and give the default.
  Negative and fractional values are not modelled.
\<close>

definition or_default :: "nat option \<Rightarrow> nat \<Rightarrow> nat" where
  "or_default q d = (case q of None \<Rightarrow> d | Some n \<Rightarrow> if n = 0 then d else n)"

text \<open>\<^verbatim>\<open>Math.ceil(total / limit)\<close>; the limit is never \<open>0\<close> here.\<close>

definition math_ceil_div :: "nat \<Rightarrow> nat \<Rightarrow> nat" where
  "math_ceil_div t l = nat \<lceil>real t / real l\<rceil>"

text \<open>
  The body shared, line for line, by \<^verbatim>\<open>GET /students\<close> (lines 271-291) and
  \<^verbatim>\<open>GET /students/search/:text\<close> (lines 405-407 and 419-436): the page of the
  documents that satisfy the filter, and the count of all of them.
\<close>

definition paginate :: "(StudentDoc \<Rightarrow> bool) \<Rightarrow> nat option \<Rightarrow> nat option \<Rightarrow> collection \<Rightarrow> StudentsPage" where
  "paginate flt qpage qlimit docs =
     (let pg = or_default qpage 1;
          lmt = or_default qlimit 10;
          skip = (pg - 1) * lmt;
          result = find_skip_limit flt skip lmt docs;
          tot = countDocuments flt docs
      in \<lparr>students = result,
          pagination = \<lparr>total = tot, page = pg, limit = lmt,
                         totalPages = math_ceil_div tot lmt\<rparr>\<rparr>)"

section \<open>Identifiers and text\<close>

text \<open>
  \<^verbatim>\<open>new ObjectId(id)\<close> on a string: 24 hexadecimal digits give the identifier (two
  spellings that differ in the case of a digit are the same identifier); any other
  string throws. A string of 12 characters, which older versions of the BSON library
  also accept, is refused as the current one does.
\<close>

text \<open>
  The case folding of the ASCII letters. It is applied to hexadecimal digits and to text
  of printable ASCII characters only; the folding of other scripts is not modelled.
\<close>

definition upper_letters :: string where
  "upper_letters = ''ABCDEFGHIJKLMNOPQRSTUVWXYZ''"

definition lower_letters :: string where
  "lower_letters = ''abcdefghijklmnopqrstuvwxyz''"

definition to_lower :: "char \<Rightarrow> char" where
  "to_lower c =
     (case map_of (zip upper_letters lower_letters) c of None \<Rightarrow> c | Some l \<Rightarrow> l)"

definition is_hex :: "char \<Rightarrow> bool" where
  "is_hex c = (c \<in> set ''0123456789abcdefABCDEF'')"

definition bson_error_msg :: string where
  "bson_error_msg = ''input must be a 24 character hex string, 12 byte Uint8Array, or an integer''"

definition ObjectId :: "string \<Rightarrow> thrown + oid" where
  "ObjectId s =
     (if length s = 24 \<and> list_all is_hex s then Inr (map to_lower s)
      else Inl (Error bson_error_msg))"

section \<open>The handlers\<close>

text \<open>\<^verbatim>\<open>GET /students\<close> (lines 269-304): no filter.\<close>

definition get_students :: "nat option \<Rightarrow> nat option \<Rightarrow> collection \<Rightarrow> StudentsPage outcome" where
  "get_students qpage qlimit docs = Returned (paginate (\<lambda>d. True) qpage qlimit docs)"

text \<open>
  \<^verbatim>\<open>POST /students\<close> (lines 307-331). The handler looks the \<^verbatim>\<open>student_id\<close> up by
  equality, answers 400 when it finds a document, and inserts otherwise; whatever the
  \<^verbatim>\<open>try\<close> block throws becomes a 400 with the error's message (a 500 for a
  non-\<^verbatim>\<open>Error\<close>). The result is the response and the collection afterwards.
\<close>

definition post_students :: "oid \<Rightarrow> Student \<Rightarrow> collection \<Rightarrow> StudentDoc outcome \<times> collection" where
  "post_students new_id body docs =
     (case findOne (\<lambda>d. student_id d = student_id body) docs of
        Some existingStudent \<Rightarrow> (Response 400 ''Student ID already exists'', docs)
      | None \<Rightarrow>
          (case insertOne new_id body docs of
             Inl (Error m) \<Rightarrow> (Response 400 m, docs)
           | Inl NonError \<Rightarrow> (Response 500 ''Can't create student.'', docs)
           | Inr docs' \<Rightarrow> (Returned (with_id new_id body), docs')))"

text \<open>
  \<^verbatim>\<open>PUT /students/:id\<close> (lines 348-384). \<^verbatim>\<open>new ObjectId(id)\<close> is evaluated first,
  inside the \<^verbatim>\<open>try\<close>; the uniqueness check leaves the target itself out; the update
  follows, and \<^verbatim>\<open>matchedCount === 0\<close> gives the 404. The value returned is
  \<^verbatim>\<open>{ ...body, _id: id }\<close>, with the \<^verbatim>\<open>id\<close> as it came in the path
  (\<open>ident\<close> here: \<open>id\<close> is the identity function of HOL).
\<close>

definition put_students :: "string \<Rightarrow> Student \<Rightarrow> collection \<Rightarrow> StudentDoc outcome \<times> collection" where
  "put_students ident body docs =
     (case ObjectId ident of
        Inl (Error m) \<Rightarrow> (Response 400 m, docs)
      | Inl NonError \<Rightarrow> (Response 500 ''Can't update student.'', docs)
      | Inr x \<Rightarrow>
          (case findOne (\<lambda>d. student_id d = student_id body \<and> oid d \<noteq> x) docs of
             Some existingStudent \<Rightarrow> (Response 400 ''Student ID already exists'', docs)
           | None \<Rightarrow>
               (case updateOne x body docs of (matchedCount, docs') \<Rightarrow>
                  if matchedCount = 0 then (Response 404 ''Student not found'', docs')
                  else (Returned (with_id ident body), docs'))))"

text \<open>
  \<^verbatim>\<open>DELETE /students/:id\<close> (lines 387-400). Both failures leave the handler as thrown
  errors: the \<^verbatim>\<open>catch\<close> rethrows \<^verbatim>\<open>new Error(error.message)\<close> and sets no status.
\<close>

definition delete_students :: "string \<Rightarrow> collection \<Rightarrow> string outcome \<times> collection" where
  "delete_students ident docs =
     (case ObjectId ident of
        Inl (Error m) \<Rightarrow> (Thrown m, docs)
      | Inl NonError \<Rightarrow> (Thrown ''Can't delete student.'', docs)
      | Inr x \<Rightarrow>
          (case deleteOne x docs of (deletedCount, docs') \<Rightarrow>
             if deletedCount = 0 then (Thrown ''Can't find this student to delete.'', docs')
             else (Returned ''Student deleted successfully'', docs')))"

text \<open>
  \<^verbatim>\<open>decodeURIComponent(text)\<close> on a byte string: an escape \<^verbatim>\<open>%XY\<close> below \<^verbatim>\<open>%80\<close> is
  the ASCII character it names, and a \<^verbatim>\<open>%\<close> that two hexadecimal digits do not
  follow throws \<^verbatim>\<open>URIError\<close>, whose message on Bun, the runtime of the repository, is
  \<^verbatim>\<open>URI error\<close>. An escape from \<^verbatim>\<open>%80\<close> on starts a UTF-8 sequence, which is not
  modelled: the result is \<open>None\<close> there.
\<close>

definition hex_val :: "char \<Rightarrow> nat option" where
  "hex_val c = map_of (zip ''0123456789abcdefABCDEF''
     [0, 1, 2, 3, 4, 5, 6, 7, 8, 9, 10, 11, 12, 13, 14, 15, 10, 11, 12, 13, 14, 15]) c"

definition uri_error_msg :: string where
  "uri_error_msg = ''URI error''"

fun decodeURIComponent :: "string \<Rightarrow> (thrown + string) option" where
  "decodeURIComponent [] = Some (Inr [])"
| "decodeURIComponent (c # cs) =
     (if c = CHR ''%'' then
        (case cs of
           h1 # h2 # rest \<Rightarrow>
             (case (hex_val h1, hex_val h2) of
                (Some a, Some b) \<Rightarrow>
                  if a < 8 then
                    (case decodeURIComponent rest of
                       Some (Inr r) \<Rightarrow> Some (Inr (char_of (16 * a + b) # r))
                     | other \<Rightarrow> other)
                  else None
              | _ \<Rightarrow> Some (Inl (Error uri_error_msg)))
         | _ \<Rightarrow> Some (Inl (Error uri_error_msg)))
      else
        (case decodeURIComponent cs of
           Some (Inr r) \<Rightarrow> Some (Inr (c # r))
         | other \<Rightarrow> other))"

text \<open>
  \<^verbatim>\<open>new RegExp(searchText, 'i')\<close>: the text is a regular expression, not a literal.
  The model covers the patterns made of printable ASCII characters: an ordinary
  character stands for itself and, with the flag \<^verbatim>\<open>i\<close>, a letter for both its cases;
  \<^verbatim>\<open>.\<close> stands for any character but a line feed. A pattern that uses another syntax
  character (a backslash or one of \<^verbatim>\<open>^ $ * + ? ( ) [ ] { } |\<close>), or a character outside
  printable ASCII, is outside the model, and \<open>RegExp_i\<close> is \<open>None\<close> there.
\<close>

definition printable :: "char \<Rightarrow> bool" where
  "printable c = (32 \<le> (of_char c :: nat) \<and> (of_char c :: nat) \<le> 126)"

datatype rx_atom = Lit char | AnyChar

definition syntax_chars :: "char list" where
  "syntax_chars = CHR 0x5C # ''^$.*+?()[]{}|''"

fun RegExp_i :: "string \<Rightarrow> rx_atom list option" where
  "RegExp_i [] = Some []"
| "RegExp_i (c # cs) =
     (if c = CHR ''.'' then map_option (\<lambda>r. AnyChar # r) (RegExp_i cs)
      else if c \<in> set syntax_chars \<or> \<not> printable c then None
      else map_option (\<lambda>r. Lit c # r) (RegExp_i cs))"

fun atom_matches :: "rx_atom \<Rightarrow> char \<Rightarrow> bool" where
  "atom_matches (Lit x) c = (to_lower x = to_lower c)"
| "atom_matches AnyChar c = (c \<noteq> CHR 0x0A)"

text \<open>The pattern matches at the start of a subject of printable ASCII characters.\<close>

fun match_here :: "rx_atom list \<Rightarrow> string \<Rightarrow> bool" where
  "match_here [] s = True"
| "match_here (a # as) [] = False"
| "match_here (a # as) (c # cs) = (atom_matches a c \<and> match_here as cs)"

text \<open>The pattern matches somewhere in a subject of printable ASCII characters.\<close>

fun regex_match :: "rx_atom list \<Rightarrow> string \<Rightarrow> bool" where
  "regex_match re [] = match_here re []"
| "regex_match re (c # cs) = (match_here re (c # cs) \<or> regex_match re cs)"

text \<open>
  \<^verbatim>\<open>{ field: regexp }\<close> on the field of a document. The empty pattern matches every
  text. The match of another pattern on a text with a character outside printable
  ASCII (the store folds the case of other scripts, and a character is several bytes
  there) is not modelled: the result is \<open>None\<close>.
\<close>

definition regex_test :: "rx_atom list \<Rightarrow> string \<Rightarrow> bool option" where
  "regex_test re s =
     (if re = [] then Some True
      else if list_all printable s then Some (regex_match re s)
      else None)"

text \<open>
  \<^verbatim>\<open>searchQuery\<close> (lines 410-417): the \<^verbatim>\<open>$or\<close> of the regular expression on the four
  fields. The collation of line 421 does not bear on \<^verbatim>\<open>$regex\<close>, nor, without a sort,
  on the order of the result.
\<close>

definition searchQuery :: "rx_atom list \<Rightarrow> StudentDoc \<Rightarrow> bool option" where
  "searchQuery re d =
     (case (regex_test re (student_id d), regex_test re (firstname d),
            regex_test re (lastname d), regex_test re (nickname d)) of
        (Some m1, Some m2, Some m3, Some m4) \<Rightarrow> Some (m1 \<or> m2 \<or> m3 \<or> m4)
      | _ \<Rightarrow> None)"

text \<open>
  \<^verbatim>\<open>GET /students/search/:text\<close> (lines 403-450); \<open>text\<close> is the path parameter as the
  framework hands it over. \<open>None\<close>: the request is outside the modelled fragment (the
  text, or the match on a document of the collection).
\<close>

definition get_students_search ::
  "string \<Rightarrow> nat option \<Rightarrow> nat option \<Rightarrow> collection \<Rightarrow> StudentsPage outcome option" where
  "get_students_search text qpage qlimit docs =
     (case decodeURIComponent text of
        None \<Rightarrow> None
      | Some (Inl (Error m)) \<Rightarrow> Some (Response 400 m)
      | Some (Inl NonError) \<Rightarrow> Some (Response 500 ''Can't search students.'')
      | Some (Inr searchText) \<Rightarrow>
          (case RegExp_i searchText of
             None \<Rightarrow> None
           | Some re \<Rightarrow>
               if list_all (\<lambda>d. searchQuery re d \<noteq> None) docs
               then Some (Returned (paginate (\<lambda>d. searchQuery re d = Some True) qpage qlimit docs))
               else None))"

section \<open>The query coordinator\<close>

text \<open>
  The state of \<^verbatim>\<open>App\<close> in \<^verbatim>\<open>src/client/src/App.tsx\<close> that the list, the search and
  the page navigation read or write (lines 47-57 and 65); the state of the form and of
  the modal is left out. The fields \<open>app_students\<close> and \<open>app_pagination\<close> are the
  state variables \<^verbatim>\<open>students\<close> and \<^verbatim>\<open>pagination\<close>; the plain names are the fields
  of the server's response above.
\<close>

record AppState =
  app_students :: "StudentDoc list"
  searchText :: string
  debouncedSearchText :: string
  isLoading :: bool
  app_pagination :: PaginationData

text \<open>\<^verbatim>\<open>handlePageChange\<close> (lines 122-125).\<close>

definition handlePageChange :: "int \<Rightarrow> AppState \<Rightarrow> AppState" where
  "handlePageChange newPage s =
     (if newPage < 1 \<or> newPage > int (totalPages (app_pagination s)) \<or> isLoading s then s
      else s\<lparr>app_pagination := (app_pagination s)\<lparr>page := nat newPage\<rparr>\<rparr>)"

text \<open>
  \<^verbatim>\<open>String.prototype.trim\<close> on a string in UTF-8: it removes, at both ends, the white
  space and the line terminators of the language, which are U+0009 to U+000D, U+0020,
  U+00A0, U+1680, U+2000 to U+200A, U+2028, U+2029, U+202F, U+205F, U+3000 and U+FEFF.
\<close>

definition space1 :: "char list" where
  "space1 = [CHR 0x09, CHR 0x0A, CHR 0x0B, CHR 0x0C, CHR 0x0D, CHR 0x20]"

definition space3 :: "(char \<times> char \<times> char) list" where
  "space3 =
     [(CHR 0xE1, CHR 0x9A, CHR 0x80),
      (CHR 0xE2, CHR 0x80, CHR 0x80), (CHR 0xE2, CHR 0x80, CHR 0x81),
      (CHR 0xE2, CHR 0x80, CHR 0x82), (CHR 0xE2, CHR 0x80, CHR 0x83),
      (CHR 0xE2, CHR 0x80, CHR 0x84), (CHR 0xE2, CHR 0x80, CHR 0x85),
      (CHR 0xE2, CHR 0x80, CHR 0x86), (CHR 0xE2, CHR 0x80, CHR 0x87),
      (CHR 0xE2, CHR 0x80, CHR 0x88), (CHR 0xE2, CHR 0x80, CHR 0x89),
      (CHR 0xE2, CHR 0x80, CHR 0x8A), (CHR 0xE2, CHR 0x80, CHR 0xA8),
      (CHR 0xE2, CHR 0x80, CHR 0xA9), (CHR 0xE2, CHR 0x80, CHR 0xAF),
      (CHR 0xE2, CHR 0x81, CHR 0x9F), (CHR 0xE3, CHR 0x80, CHR 0x80),
      (CHR 0xEF, CHR 0xBB, CHR 0xBF)]"

text \<open>
  \<open>is_space b1 b2 b3\<close>: how many of the bytes \<open>b1\<close>, \<open>b2\<close>, \<open>b3\<close>, read in
  the order of the text, begin with a white space character (\<open>0\<close> when none does);
  \<open>None\<close> stands for the end of the text.
\<close>

definition is_space :: "char \<Rightarrow> char option \<Rightarrow> char option \<Rightarrow> nat" where
  "is_space b1 b2 b3 =
     (if b1 \<in> set space1 then 1
      else if b1 = CHR 0xC2 \<and> b2 = Some (CHR 0xA0) then 2
      else (case (b2, b3) of
              (Some x, Some y) \<Rightarrow> if (b1, x, y) \<in> set space3 then 3 else 0
            | _ \<Rightarrow> 0))"

fun trimStart :: "string \<Rightarrow> string" where
  "trimStart [] = []"
| "trimStart [a] = (if is_space a None None = 1 then [] else [a])"
| "trimStart [a, b] =
     (if is_space a (Some b) None = 1 then trimStart [b]
      else if is_space a (Some b) None = 2 then []
      else [a, b])"
| "trimStart (a # b # c # cs) =
     (if is_space a (Some b) (Some c) = 1 then trimStart (b # c # cs)
      else if is_space a (Some b) (Some c) = 2 then trimStart (c # cs)
      else if is_space a (Some b) (Some c) = 3 then trimStart cs
      else a # b # c # cs)"

text \<open>The same from the end, on the reversed text: \<open>a\<close> is the last byte.\<close>

fun trimEnd_rev :: "string \<Rightarrow> string" where
  "trimEnd_rev [] = []"
| "trimEnd_rev [a] = (if is_space a None None = 1 then [] else [a])"
| "trimEnd_rev [a, b] =
     (if is_space a None None = 1 then trimEnd_rev [b]
      else if is_space b (Some a) None = 2 then []
      else [a, b])"
| "trimEnd_rev (a # b # c # cs) =
     (if is_space a None None = 1 then trimEnd_rev (b # c # cs)
      else if is_space b (Some a) None = 2 then trimEnd_rev (c # cs)
      else if is_space c (Some b) (Some a) = 3 then trimEnd_rev cs
      else a # b # c # cs)"

definition trim :: "string \<Rightarrow> string" where
  "trim s = rev (trimEnd_rev (rev (trimStart s)))"

text \<open>
  The read that \<^verbatim>\<open>fetchStudents\<close> issues (lines 66-94): a search with the trimmed
  text when it is not empty, the list otherwise. The escaping of the text for the URL
  is left out.
\<close>

datatype request = GetStudents nat nat | GetStudentsSearch string nat nat

definition fetchStudents :: "AppState \<Rightarrow> request" where
  "fetchStudents s =
     (if trim (debouncedSearchText s) \<noteq> []
      then GetStudentsSearch (trim (debouncedSearchText s))
             (page (app_pagination s)) (limit (app_pagination s))
      else GetStudents (page (app_pagination s)) (limit (app_pagination s)))"

text \<open>
  The effect of lines 102-106 runs after a render in which one of its dependencies
  \<^verbatim>\<open>[fetchStudents, debouncedSearchText, pagination.page]\<close> has changed, and the
  callback \<^verbatim>\<open>fetchStudents\<close> is a new one when one of
  \<^verbatim>\<open>[debouncedSearchText, pagination.page, pagination.limit]\<close> has (line 94). It issues the
  read unless the coordinator is busy. The result is the list of the requests issued
  between the state \<open>prev\<close> and the state \<open>cur\<close>.
\<close>

definition fetch_deps :: "AppState \<Rightarrow> string \<times> nat \<times> nat" where
  "fetch_deps s = (debouncedSearchText s, page (app_pagination s), limit (app_pagination s))"

definition fetch_effect :: "AppState \<Rightarrow> AppState \<Rightarrow> request list" where
  "fetch_effect prev cur =
     (if fetch_deps prev \<noteq> fetch_deps cur \<and> \<not> isLoading cur then [fetchStudents cur] else [])"

text \<open>
  The effect of lines 96-100 runs after a render in which \<^verbatim>\<open>debouncedSearchText\<close> or
  \<^verbatim>\<open>searchText\<close> has changed, and sets the page to \<open>1\<close> when the two differ.
\<close>

definition page_reset_effect :: "AppState \<Rightarrow> AppState \<Rightarrow> bool" where
  "page_reset_effect prev cur =
     ((debouncedSearchText prev, searchText prev) \<noteq> (debouncedSearchText cur, searchText cur)
      \<and> debouncedSearchText cur \<noteq> searchText cur)"

text \<open>
  One render and its effects, from the state \<open>prev\<close> of the render before to the state
  \<open>cur\<close>: the requests issued, and the state with the updates the effects have queued
  (the page reset, and \<^verbatim>\<open>setIsLoading(true)\<close> of line 67 when \<^verbatim>\<open>fetchStudents\<close> was
  called). The request is built from the values of the render \<open>cur\<close>.
\<close>

definition commit :: "AppState \<Rightarrow> AppState \<Rightarrow> request list \<times> AppState" where
  "commit prev cur =
     (let reqs = fetch_effect prev cur;
          cur1 = (if page_reset_effect prev cur
                  then cur\<lparr>app_pagination := (app_pagination cur)\<lparr>page := 1\<rparr>\<rparr> else cur);
          cur2 = (if reqs \<noteq> [] then cur1\<lparr>isLoading := True\<rparr> else cur1)
      in (reqs, cur2))"

text \<open>
  The renders that follow a change of state: the render of the change, and the render of
  the updates its effects have queued. A third one changes nothing (lemma
  \<open>commit_idle\<close> below).
\<close>

definition settle :: "AppState \<Rightarrow> AppState \<Rightarrow> request list \<times> AppState" where
  "settle prev cur =
     (case commit prev cur of (r1, c1) \<Rightarrow>
        (case commit cur c1 of (r2, c2) \<Rightarrow> (r1 @ r2, c2)))"

text \<open>\<^verbatim>\<open>handleSearchChange\<close> (lines 112-115).\<close>

definition handleSearchChange :: "string \<Rightarrow> AppState \<Rightarrow> AppState" where
  "handleSearchChange newValue s = s\<lparr>searchText := newValue\<rparr>"

text \<open>
  Modelled from the spec: the hook \<^verbatim>\<open>useDebounce\<close> of \<^verbatim>\<open>./hooks/useDebounce\<close>, which
  line 65 calls with the delay 500 and which is not among the sources. ``Raw input
  changes are buffered; the debounced value updates only after a quiet period of fixed
  duration (500ms in the reference behavior) with no further input'': a change of the
  raw text leaves the debounced text as it is, and the end of a quiet period (the
  event \<open>Quiet\<close> below) gives it the raw text.
\<close>

definition useDebounce_elapsed :: "AppState \<Rightarrow> AppState" where
  "useDebounce_elapsed s = s\<lparr>debouncedSearchText := searchText s\<rparr>"

text \<open>
  The end of \<^verbatim>\<open>fetchStudents\<close> (lines 80-93): with a response, the students and the
  pagination of the response; in both cases \<^verbatim>\<open>setIsLoading(false)\<close>.
\<close>

definition fetch_done :: "StudentsPage \<Rightarrow> AppState \<Rightarrow> AppState" where
  "fetch_done r s = s\<lparr>app_students := students r, app_pagination := pagination r, isLoading := False\<rparr>"

definition fetch_failed :: "AppState \<Rightarrow> AppState" where
  "fetch_failed s = s\<lparr>isLoading := False\<rparr>"

text \<open>
  What happens to the coordinator: the operator changes the search text, a quiet period
  ends, a response arrives, a request fails. A sequence of \<open>Input\<close> events with no
  \<open>Quiet\<close> between them is a burst of changes within the quiet window.
\<close>

datatype event = Input string | Quiet | FetchDone StudentsPage | FetchFailed

fun step :: "event \<Rightarrow> AppState \<Rightarrow> request list \<times> AppState" where
  "step (Input newValue) s = settle s (handleSearchChange newValue s)"
| "step Quiet s = settle s (useDebounce_elapsed s)"
| "step (FetchDone r) s = settle s (fetch_done r s)"
| "step FetchFailed s = settle s (fetch_failed s)"

fun run :: "event list \<Rightarrow> AppState \<Rightarrow> request list \<times> AppState" where
  "run [] s = ([], s)"
| "run (e # es) s =
     (case step e s of (r1, s1) \<Rightarrow>
        (case run es s1 of (r2, s2) \<Rightarrow> (r1 @ r2, s2)))"

section \<open>The filter as the specification words it\<close>





section \<open>Example data\<close>

definition anne :: StudentDoc where
  "anne = \<lparr>student_id = ''67101337'', firstname = ''Anne'', lastname = ''Lee'',
            nickname = ''An'', oid = ''65f0000000000000000000a1''\<rparr>"

definition bob :: StudentDoc where
  "bob = \<lparr>student_id = ''67109363'', firstname = ''Bob'', lastname = ''Van Dam'',
           nickname = ''B'', oid = ''65f0000000000000000000a2''\<rparr>"

definition chai :: StudentDoc where
  "chai = \<lparr>student_id = ''67100001'', firstname = ''Chai'', lastname = ''Srisuk'',
            nickname = ''joanna'', oid = ''65f0000000000000000000a3''\<rparr>"

definition new_anne :: Student where
  "new_anne = \<lparr>student_id = ''67101337'', firstname = ''Annie'', lastname = ''Li'',
                nickname = ''Ann''\<rparr>"

definition nameless :: Student where
  "nameless = \<lparr>student_id = ''67100002'', firstname = [], lastname = ''Doe'',
                nickname = []\<rparr>"

definition settled :: AppState where
  "settled = \<lparr>app_students = [anne, bob], searchText = [], debouncedSearchText = [],
     isLoading = False, app_pagination = \<lparr>total = 5, page = 2, limit = 2, totalPages = 3\<rparr>\<rparr>"

definition first_page :: AppState where
  "first_page = \<lparr>app_students = [anne, bob], searchText = [], debouncedSearchText = [],
     isLoading = False, app_pagination = \<lparr>total = 3, page = 1, limit = 2, totalPages = 2\<rparr>\<rparr>"

definition searching :: AppState where
  "searching = \<lparr>app_students = [chai], searchText = ''a'', debouncedSearchText = ''a'',
     isLoading = False, app_pagination = \<lparr>total = 3, page = 2, limit = 2, totalPages = 2\<rparr>\<rparr>"

section \<open>Facts about the store\<close>

lemma findOne_None: "findOne flt docs = None \<longleftrightarrow> (\<forall>d\<in>set docs. \<not> flt d)"
  by (auto simp: findOne_def find_None_iff)

lemma findOne_Some_ex: "(\<exists>d. findOne flt docs = Some d) \<longleftrightarrow> (\<exists>d\<in>set docs. flt d)"
  using findOne_None[of flt docs] by (cases "findOne flt docs") auto

lemma updateOne_absent: "x \<notin> oid ` set docs \<Longrightarrow> updateOne x body docs = (0, docs)"
  by (induction docs) auto

lemma updateOne_present:
  "x \<in> oid ` set docs \<Longrightarrow>
   \<exists>i<length docs. oid (docs ! i) = x \<and> (\<forall>j<i. oid (docs ! j) \<noteq> x)
      \<and> updateOne x body docs = (1, docs[i := with_id x body])"
proof (induction docs)
  case Nil
  then show ?case by simp
next
  case (Cons d ds)
  show ?case
  proof (cases "oid d = x")
    case True
    then have "oid ((d # ds) ! 0) = x \<and> (\<forall>j<0. oid ((d # ds) ! j) \<noteq> x)
      \<and> updateOne x body (d # ds) = (1, (d # ds)[0 := with_id x body])"
      by simp
    then show ?thesis by blast
  next
    case False
    with Cons.prems have "x \<in> oid ` set ds" by auto
    from Cons.IH[OF this] obtain i where i: "i < length ds" "oid (ds ! i) = x"
      "\<forall>j<i. oid (ds ! j) \<noteq> x" "updateOne x body ds = (1, ds[i := with_id x body])"
      by blast
    have "\<forall>j<Suc i. oid ((d # ds) ! j) \<noteq> x"
      using False i(3) by (auto simp: less_Suc_eq_0_disj)
    moreover have "updateOne x body (d # ds) = (1, (d # ds)[Suc i := with_id x body])"
      using False i(4) by simp
    ultimately have "Suc i < length (d # ds) \<and> oid ((d # ds) ! Suc i) = x
      \<and> (\<forall>j<Suc i. oid ((d # ds) ! j) \<noteq> x)
      \<and> updateOne x body (d # ds) = (1, (d # ds)[Suc i := with_id x body])"
      using i(1,2) by simp
    then show ?thesis by blast
  qed
qed

lemma deleteOne_absent: "x \<notin> oid ` set docs \<Longrightarrow> deleteOne x docs = (0, docs)"
  by (induction docs) auto

lemma deleteOne_present:
  "x \<in> oid ` set docs \<Longrightarrow>
   \<exists>i<length docs. oid (docs ! i) = x \<and> (\<forall>j<i. oid (docs ! j) \<noteq> x)
      \<and> deleteOne x docs = (1, take i docs @ drop (Suc i) docs)"
proof (induction docs)
  case Nil
  then show ?case by simp
next
  case (Cons d ds)
  show ?case
  proof (cases "oid d = x")
    case True
    then have "oid ((d # ds) ! 0) = x \<and> (\<forall>j<0. oid ((d # ds) ! j) \<noteq> x)
      \<and> deleteOne x (d # ds) = (1, take 0 (d # ds) @ drop (Suc 0) (d # ds))"
      by simp
    then show ?thesis by blast
  next
    case False
    with Cons.prems have "x \<in> oid ` set ds" by auto
    from Cons.IH[OF this] obtain i where i: "i < length ds" "oid (ds ! i) = x"
      "\<forall>j<i. oid (ds ! j) \<noteq> x" "deleteOne x ds = (1, take i ds @ drop (Suc i) ds)"
      by blast
    have "\<forall>j<Suc i. oid ((d # ds) ! j) \<noteq> x"
      using False i(3) by (auto simp: less_Suc_eq_0_disj)
    moreover have "deleteOne x (d # ds) = (1, take (Suc i) (d # ds) @ drop (Suc (Suc i)) (d # ds))"
      using False i(4) by simp
    ultimately have "Suc i < length (d # ds) \<and> oid ((d # ds) ! Suc i) = x
      \<and> (\<forall>j<Suc i. oid ((d # ds) ! j) \<noteq> x)
      \<and> deleteOne x (d # ds) = (1, take (Suc i) (d # ds) @ drop (Suc (Suc i)) (d # ds))"
      using i(1,2) by simp
    then show ?thesis by blast
  qed
qed

section \<open>Facts about the page count\<close>

lemma math_ceil_div_le: "0 < l \<Longrightarrow> t \<le> math_ceil_div t l * l"
proof -
  assume l: "0 < l"
  have "real t / real l \<le> real_of_int \<lceil>real t / real l\<rceil>" by (rule le_of_int_ceiling)
  also have "\<dots> = real (math_ceil_div t l)"
    unfolding math_ceil_div_def by (simp add: ceiling_le_iff[symmetric] le_nat_iff)
  finally have "real t \<le> real (math_ceil_div t l) * real l"
    using l by (simp add: divide_le_eq)
  then show ?thesis
    by (metis of_nat_le_iff of_nat_mult)
qed

lemma math_ceil_div_least: "0 < l \<Longrightarrow> t \<le> n * l \<Longrightarrow> math_ceil_div t l \<le> n"
proof -
  assume l: "0 < l" and t: "t \<le> n * l"
  have "real t \<le> real n * real l" using t by (metis of_nat_le_iff of_nat_mult)
  then have "real t / real l \<le> real n" using l by (simp add: divide_le_eq)
  then have "\<lceil>real t / real l\<rceil> \<le> int n"
    using ceiling_le_iff[of "real t / real l" "int n"] by simp
  then show ?thesis unfolding math_ceil_div_def by linarith
qed

lemma math_ceil_div_eq: "0 < l \<Longrightarrow> math_ceil_div t l = (t + l - 1) div l"
proof -
  assume l: "0 < l"
  define k where "k = (t + l - 1) div l"
  define r where "r = (t + l - 1) mod l"
  have a: "t + l - 1 = k * l + r" unfolding k_def r_def by simp
  have r: "r < l" unfolding r_def using l by simp
  have up: "t \<le> k * l" using a r by linarith
  have "math_ceil_div t l \<le> k" using math_ceil_div_least[OF l up] .
  moreover have "k \<le> math_ceil_div t l"
  proof (rule ccontr)
    assume "\<not> k \<le> math_ceil_div t l"
    then have "Suc (math_ceil_div t l) \<le> k" by simp
    then have "Suc (math_ceil_div t l) * l \<le> k * l" by (rule mult_le_mono1)
    then have "math_ceil_div t l * l + l \<le> k * l" by simp
    moreover have "t \<le> math_ceil_div t l * l" using math_ceil_div_le[OF l] .
    ultimately show False using a l by linarith
  qed
  ultimately show ?thesis unfolding k_def by simp
qed

section \<open>Create\<close>

lemma post_students_conflict:
  "\<exists>d\<in>set docs. student_id d = student_id body \<Longrightarrow>
   post_students new_id body docs = (Response 400 ''Student ID already exists'', docs)"
proof -
  assume "\<exists>d\<in>set docs. student_id d = student_id body"
  then obtain e where "findOne (\<lambda>d. student_id d = student_id body) docs = Some e"
    using findOne_Some_ex[of "\<lambda>d. student_id d = student_id body" docs] by blast
  then show ?thesis by (simp add: post_students_def)
qed

lemma post_students_fresh:
  "\<forall>d\<in>set docs. student_id d \<noteq> student_id body \<Longrightarrow> new_id \<notin> oid ` set docs \<Longrightarrow>
   post_students new_id body docs = (Returned (with_id new_id body), docs @ [with_id new_id body])"
proof -
  assume a: "\<forall>d\<in>set docs. student_id d \<noteq> student_id body" and b: "new_id \<notin> oid ` set docs"
  from a have "findOne (\<lambda>d. student_id d = student_id body) docs = None"
    by (simp add: findOne_None)
  moreover have "insertOne new_id body docs = Inr (docs @ [with_id new_id body])"
    using b by (simp add: insertOne_def)
  ultimately show ?thesis by (simp add: post_students_def)
qed

text \<open>
  C1. Whatever the collection and the request: when a stored document has the
  \<^verbatim>\<open>student_id\<close> of the request, the answer of \<^verbatim>\<open>POST /students\<close> is the 400 with the
  message \<^verbatim>\<open>Student ID already exists\<close> and the collection is the one before (so its
  count is unchanged); when none has it, the document is appended with the identifier
  the driver generated (one the store does not hold yet), and the answer is that
  document, identifier included.
\<close>

theorem post_students_unique:
  "((\<exists>d\<in>set docs. student_id d = student_id body) \<longrightarrow>
      post_students new_id body docs = (Response 400 ''Student ID already exists'', docs))
   \<and> ((\<forall>d\<in>set docs. student_id d \<noteq> student_id body) \<and> new_id \<notin> oid ` set docs \<longrightarrow>
      post_students new_id body docs =
        (Returned \<lparr>student_id = student_id body, firstname = firstname body,
                    lastname = lastname body, nickname = nickname body, oid = new_id\<rparr>,
         docs @ [\<lparr>student_id = student_id body, firstname = firstname body,
                    lastname = lastname body, nickname = nickname body, oid = new_id\<rparr>]))"
proof (intro conjI impI)
  assume "\<exists>d\<in>set docs. student_id d = student_id body"
  then obtain e where "findOne (\<lambda>d. student_id d = student_id body) docs = Some e"
    using findOne_Some_ex[of "\<lambda>d. student_id d = student_id body" docs] by blast
  then show "post_students new_id body docs = (Response 400 ''Student ID already exists'', docs)"
    by (simp add: post_students_def)
next
  assume a: "(\<forall>d\<in>set docs. student_id d \<noteq> student_id body) \<and> new_id \<notin> oid ` set docs"
  then have "findOne (\<lambda>d. student_id d = student_id body) docs = None"
    by (simp add: findOne_None)
  moreover have "insertOne new_id body docs = Inr (docs @ [with_id new_id body])"
    using a by (simp add: insertOne_def)
  ultimately show "post_students new_id body docs =
        (Returned \<lparr>student_id = student_id body, firstname = firstname body,
                    lastname = lastname body, nickname = nickname body, oid = new_id\<rparr>,
         docs @ [\<lparr>student_id = student_id body, firstname = firstname body,
                    lastname = lastname body, nickname = nickname body, oid = new_id\<rparr>])"
    by (simp add: post_students_def with_id_def)
qed

theorem post_students_unique_witness:
  "post_students ''65f0000000000000000000a4'' new_anne [anne, bob]
     = (Response 400 ''Student ID already exists'', [anne, bob])
   \<and> post_students ''65f0000000000000000000a4'' \<lparr>student_id = ''67100002'',
        firstname = ''Dao'', lastname = ''Doe'', nickname = ''D''\<rparr> [anne, bob]
     = (Returned \<lparr>student_id = ''67100002'', firstname = ''Dao'', lastname = ''Doe'',
                nickname = ''D'', oid = ''65f0000000000000000000a4''\<rparr>,
        [anne, bob, \<lparr>student_id = ''67100002'', firstname = ''Dao'', lastname = ''Doe'',
                nickname = ''D'', oid = ''65f0000000000000000000a4''\<rparr>])"
  using post_students_unique[of "[anne, bob]" new_anne "''65f0000000000000000000a4''"]
        post_students_unique[of "[anne, bob]" "\<lparr>student_id = ''67100002'',
        firstname = ''Dao'', lastname = ''Doe'', nickname = ''D''\<rparr>" "''65f0000000000000000000a4''"]
  by (simp add: anne_def bob_def new_anne_def)

section \<open>List\<close>

text \<open>
  C4. Whatever the collection, for a page \<open>pg \<ge> 1\<close> and a limit \<open>lmt > 0\<close>:
  \<^verbatim>\<open>GET /students\<close> returns the documents left after skipping \<open>(pg - 1) * lmt\<close> of the
  collection in its natural order and taking at most \<open>lmt\<close>, so no more than \<open>lmt\<close>
  of them, with the pagination data \<open>total\<close> = the count of all documents, \<open>page\<close>,
  \<open>limit\<close>, and \<open>totalPages\<close> = the ceiling of \<open>total / limit\<close>, which is the least
  number of pages of \<open>lmt\<close> documents that hold them all.
\<close>

theorem get_students_page:
  assumes "1 \<le> pg" and "0 < lmt"
  shows "get_students (Some pg) (Some lmt) docs =
           Returned \<lparr>students = take lmt (drop ((pg - 1) * lmt) docs),
                     pagination = \<lparr>total = length docs, page = pg, limit = lmt,
                                    totalPages = nat \<lceil>real (length docs) / real lmt\<rceil>\<rparr>\<rparr>
         \<and> length (take lmt (drop ((pg - 1) * lmt) docs)) \<le> lmt
         \<and> length docs \<le> nat \<lceil>real (length docs) / real lmt\<rceil> * lmt
         \<and> (\<forall>n. length docs \<le> n * lmt \<longrightarrow> nat \<lceil>real (length docs) / real lmt\<rceil> \<le> n)"
proof -
  have pg: "or_default (Some pg) 1 = pg" and lm: "or_default (Some lmt) 10 = lmt"
    using assms by (simp_all add: or_default_def)
  have tp: "math_ceil_div (length docs) lmt = nat \<lceil>real (length docs) / real lmt\<rceil>"
    by (simp add: math_ceil_div_def)
  have "get_students (Some pg) (Some lmt) docs =
           Returned \<lparr>students = take lmt (drop ((pg - 1) * lmt) docs),
                     pagination = \<lparr>total = length docs, page = pg, limit = lmt,
                                    totalPages = nat \<lceil>real (length docs) / real lmt\<rceil>\<rparr>\<rparr>"
    unfolding get_students_def paginate_def Let_def pg lm find_skip_limit_def countDocuments_def
    by (simp add: tp)
  moreover have "length docs \<le> nat \<lceil>real (length docs) / real lmt\<rceil> * lmt"
    using math_ceil_div_le[OF assms(2), of "length docs"] by (simp add: tp)
  moreover have "\<forall>n. length docs \<le> n * lmt \<longrightarrow> nat \<lceil>real (length docs) / real lmt\<rceil> \<le> n"
    using math_ceil_div_least[OF assms(2), of "length docs"] by (simp add: tp)
  ultimately show ?thesis by simp
qed

theorem get_students_page_witness:
  "(1::nat) \<le> 2 \<and> (0::nat) < 2
   \<and> get_students (Some 2) (Some 2) [anne, bob, chai] =
       Returned \<lparr>students = [chai],
                 pagination = \<lparr>total = 3, page = 2, limit = 2, totalPages = 2\<rparr>\<rparr>"
  using get_students_page[of 2 2 "[anne, bob, chai]"] by simp

section \<open>Update\<close>

text \<open>
  C5, amended. Whatever the collection, for an update request whose path \<open>ident\<close> is a
  well-formed identifier (24 hexadecimal digits, naming \<open>x\<close>): when a document other
  than \<open>x\<close> has the \<^verbatim>\<open>student_id\<close> of the request, the answer is the 400 with
  \<^verbatim>\<open>Student ID already exists\<close> and the collection is unchanged; when none has and no
  document is \<open>x\<close>, the answer is the 404 and the collection is unchanged; otherwise
  the four fields of the document \<open>x\<close> are replaced, its identifier stays, every other
  document stays, and the answer is the body with the identifier. In a collection
  whose \<^verbatim>\<open>student_id\<close>s are distinct, an update that keeps the \<^verbatim>\<open>student_id\<close> of its
  own target succeeds.
\<close>

theorem put_students_update:
  assumes "ObjectId ident = Inr x"
  shows "((\<exists>d\<in>set docs. student_id d = student_id body \<and> oid d \<noteq> x) \<longrightarrow>
            put_students ident body docs = (Response 400 ''Student ID already exists'', docs))
       \<and> ((\<forall>d\<in>set docs. student_id d = student_id body \<longrightarrow> oid d = x) \<and> x \<notin> oid ` set docs \<longrightarrow>
            put_students ident body docs = (Response 404 ''Student not found'', docs))
       \<and> ((\<forall>d\<in>set docs. student_id d = student_id body \<longrightarrow> oid d = x) \<and> x \<in> oid ` set docs \<longrightarrow>
            (\<exists>i<length docs. oid (docs ! i) = x \<and> (\<forall>j<i. oid (docs ! j) \<noteq> x)
               \<and> put_students ident body docs =
                   (Returned \<lparr>student_id = student_id body, firstname = firstname body,
                      lastname = lastname body, nickname = nickname body, oid = ident\<rparr>,
                    docs[i := \<lparr>student_id = student_id body, firstname = firstname body,
                      lastname = lastname body, nickname = nickname body, oid = x\<rparr>])))
       \<and> (\<forall>d\<in>set docs. oid d = x \<and> student_id d = student_id body
              \<and> distinct (map student_id docs) \<longrightarrow>
            fst (put_students ident body docs) =
               Returned \<lparr>student_id = student_id body, firstname = firstname body,
                      lastname = lastname body, nickname = nickname body, oid = ident\<rparr>)"
proof -
  let ?coll = "\<lambda>d. student_id d = student_id body \<and> oid d \<noteq> x"
  have conflict: "put_students ident body docs = (Response 400 ''Student ID already exists'', docs)"
    if "\<exists>d\<in>set docs. ?coll d"
  proof -
    from that obtain e where "findOne ?coll docs = Some e"
      using findOne_Some_ex[of ?coll docs] by blast
    then show ?thesis using assms by (simp add: put_students_def)
  qed
  have nocoll: "findOne ?coll docs = None"
    if "\<forall>d\<in>set docs. student_id d = student_id body \<longrightarrow> oid d = x"
    using that by (auto simp: findOne_None)
  have missing: "put_students ident body docs = (Response 404 ''Student not found'', docs)"
    if "\<forall>d\<in>set docs. student_id d = student_id body \<longrightarrow> oid d = x" and "x \<notin> oid ` set docs"
    using assms nocoll[OF that(1)] updateOne_absent[OF that(2), of body]
    by (simp add: put_students_def)
  have found: "\<exists>i<length docs. oid (docs ! i) = x \<and> (\<forall>j<i. oid (docs ! j) \<noteq> x)
               \<and> put_students ident body docs =
                   (Returned (with_id ident body), docs[i := with_id x body])"
    if "\<forall>d\<in>set docs. student_id d = student_id body \<longrightarrow> oid d = x" and "x \<in> oid ` set docs"
  proof -
    from updateOne_present[OF that(2), of body] obtain i where
      i: "i < length docs" "oid (docs ! i) = x" "\<forall>j<i. oid (docs ! j) \<noteq> x"
         "updateOne x body docs = (1, docs[i := with_id x body])" by blast
    have "put_students ident body docs = (Returned (with_id ident body), docs[i := with_id x body])"
      using assms nocoll[OF that(1)] i(4) by (simp add: put_students_def)
    with i(1,2,3) show ?thesis by blast
  qed
  have own: "fst (put_students ident body docs) = Returned (with_id ident body)"
    if "d \<in> set docs" and "oid d = x" and "student_id d = student_id body"
       and "distinct (map student_id docs)" for d
  proof -
    have "inj_on student_id (set docs)" using that(4) by (simp add: distinct_map)
    then have "\<forall>e\<in>set docs. student_id e = student_id body \<longrightarrow> oid e = x"
      using that(1,2,3) by (metis inj_onD)
    moreover have "x \<in> oid ` set docs" using that(1,2) by blast
    ultimately show ?thesis using found by fastforce
  qed
  show ?thesis
    using conflict missing found own unfolding with_id_def by blast
qed

theorem put_students_update_witness:
  "put_students ''65F0000000000000000000A2'' new_anne [anne, bob]
     = (Response 400 ''Student ID already exists'', [anne, bob])
   \<and> put_students ''65F0000000000000000000A3'' new_anne [anne, bob]
     = (Response 400 ''Student ID already exists'', [anne, bob])
   \<and> put_students ''65f0000000000000000000a3'' new_anne [bob]
     = (Response 404 ''Student not found'', [bob])
   \<and> put_students ''65F0000000000000000000A1'' new_anne [anne, bob]
     = (Returned \<lparr>student_id = ''67101337'', firstname = ''Annie'', lastname = ''Li'',
                nickname = ''Ann'', oid = ''65F0000000000000000000A1''\<rparr>,
        [\<lparr>student_id = ''67101337'', firstname = ''Annie'', lastname = ''Li'',
                nickname = ''Ann'', oid = ''65f0000000000000000000a1''\<rparr>, bob])"
proof -
  have o2: "ObjectId ''65F0000000000000000000A2'' = Inr ''65f0000000000000000000a2''"
   and o3: "ObjectId ''65F0000000000000000000A3'' = Inr ''65f0000000000000000000a3''"
   and o3': "ObjectId ''65f0000000000000000000a3'' = Inr ''65f0000000000000000000a3''"
   and o1: "ObjectId ''65F0000000000000000000A1'' = Inr ''65f0000000000000000000a1''"
    by (simp_all add: ObjectId_def is_hex_def to_lower_def upper_letters_def lower_letters_def)
  have "put_students ''65F0000000000000000000A2'' new_anne [anne, bob]
     = (Response 400 ''Student ID already exists'', [anne, bob])"
    using put_students_update[OF o2, of "[anne, bob]" new_anne]
    by (simp add: anne_def bob_def new_anne_def)
  moreover have "put_students ''65F0000000000000000000A3'' new_anne [anne, bob]
     = (Response 400 ''Student ID already exists'', [anne, bob])"
    using put_students_update[OF o3, of "[anne, bob]" new_anne]
    by (simp add: anne_def bob_def new_anne_def)
  moreover have "put_students ''65f0000000000000000000a3'' new_anne [bob]
     = (Response 404 ''Student not found'', [bob])"
    using put_students_update[OF o3', of "[bob]" new_anne]
    by (simp add: bob_def new_anne_def)
  moreover have "put_students ''65F0000000000000000000A1'' new_anne [anne, bob]
     = (Returned \<lparr>student_id = ''67101337'', firstname = ''Annie'', lastname = ''Li'',
                nickname = ''Ann'', oid = ''65F0000000000000000000A1''\<rparr>,
        [\<lparr>student_id = ''67101337'', firstname = ''Annie'', lastname = ''Li'',
                nickname = ''Ann'', oid = ''65f0000000000000000000a1''\<rparr>, bob])"
    using put_students_update[OF o1, of "[anne, bob]" new_anne]
    by (auto simp: anne_def bob_def new_anne_def less_Suc_eq)
  ultimately show ?thesis by simp
qed

text \<open>
  The claim as it stands fails on a path string that is no identifier: no document has
  the id \<^verbatim>\<open>abc\<close> and no other document has the \<^verbatim>\<open>student_id\<close> of the request, and
  the answer is the 400 of the \<^verbatim>\<open>catch\<close>, not the 404.
\<close>

theorem put_students_malformed_id:
  "put_students ''abc'' nameless [anne] = (Response 400 bson_error_msg, [anne])"
  by (simp add: put_students_def ObjectId_def)

section \<open>Delete\<close>

text \<open>
  What \<^verbatim>\<open>DELETE /students/:id\<close> does, whatever the collection and the path string
  \<open>ident\<close>: for a well-formed identifier that no document has, the collection stays as
  it is and the error \<^verbatim>\<open>Can't find this student to delete.\<close> is thrown; for a string
  that is no identifier, the collection stays as it is and the error of the identifier's
  constructor is thrown; for the identifier of a document, that document (the first one
  with it) is removed, the others stay in order, and the confirmation message is
  returned.
\<close>

lemma delete_students_outcome:
  "(\<forall>x. ObjectId ident = Inr x \<and> x \<notin> oid ` set docs \<longrightarrow>
       delete_students ident docs = (Thrown ''Can't find this student to delete.'', docs))
   \<and> (\<forall>m. ObjectId ident = Inl (Error m) \<longrightarrow> delete_students ident docs = (Thrown m, docs))
   \<and> (\<forall>x. ObjectId ident = Inr x \<and> x \<in> oid ` set docs \<longrightarrow>
       (\<exists>i<length docs. oid (docs ! i) = x \<and> (\<forall>j<i. oid (docs ! j) \<noteq> x)
          \<and> delete_students ident docs =
               (Returned ''Student deleted successfully'', take i docs @ drop (Suc i) docs)))"
proof (intro conjI allI impI)
  fix x assume "ObjectId ident = Inr x \<and> x \<notin> oid ` set docs"
  then show "delete_students ident docs = (Thrown ''Can't find this student to delete.'', docs)"
    using deleteOne_absent[of x docs] by (simp add: delete_students_def)
next
  fix m assume "ObjectId ident = Inl (Error m)"
  then show "delete_students ident docs = (Thrown m, docs)"
    by (simp add: delete_students_def)
next
  fix x assume a: "ObjectId ident = Inr x \<and> x \<in> oid ` set docs"
  then obtain i where i: "i < length docs" "oid (docs ! i) = x" "\<forall>j<i. oid (docs ! j) \<noteq> x"
      "deleteOne x docs = (1, take i docs @ drop (Suc i) docs)"
    using deleteOne_present[of x docs] by blast
  have "delete_students ident docs =
          (Returned ''Student deleted successfully'', take i docs @ drop (Suc i) docs)"
    using a i(4) by (simp add: delete_students_def)
  with i(1,2,3) show "\<exists>i<length docs. oid (docs ! i) = x \<and> (\<forall>j<i. oid (docs ! j) \<noteq> x)
          \<and> delete_students ident docs =
               (Returned ''Student deleted successfully'', take i docs @ drop (Suc i) docs)"
    by blast
qed

lemma delete_students_outcome_example:
  "delete_students ''65f0000000000000000000a3'' [anne, bob]
     = (Thrown ''Can't find this student to delete.'', [anne, bob])
   \<and> delete_students ''abc'' [anne, bob] = (Thrown bson_error_msg, [anne, bob])
   \<and> delete_students ''65f0000000000000000000a2'' [anne, bob, chai]
     = (Returned ''Student deleted successfully'', [anne, chai])"
proof -
  have o3: "ObjectId ''65f0000000000000000000a3'' = Inr ''65f0000000000000000000a3''"
   and o2: "ObjectId ''65f0000000000000000000a2'' = Inr ''65f0000000000000000000a2''"
   and ob: "ObjectId ''abc'' = Inl (Error bson_error_msg)"
    by (simp_all add: ObjectId_def is_hex_def to_lower_def upper_letters_def lower_letters_def)
  have "delete_students ''65f0000000000000000000a3'' [anne, bob]
     = (Thrown ''Can't find this student to delete.'', [anne, bob])"
    using delete_students_outcome[of "''65f0000000000000000000a3''" "[anne, bob]"] o3
    by (simp add: anne_def bob_def)
  moreover have "delete_students ''abc'' [anne, bob] = (Thrown bson_error_msg, [anne, bob])"
    using delete_students_outcome[of "''abc''" "[anne, bob]"] ob by simp
  moreover have "delete_students ''65f0000000000000000000a2'' [anne, bob, chai]
     = (Returned ''Student deleted successfully'', [anne, chai])"
    using delete_students_outcome[of "''65f0000000000000000000a2''" "[anne, bob, chai]"] o2
    by (auto simp: anne_def bob_def chai_def less_Suc_eq)
  ultimately show ?thesis by simp
qed

text \<open>
  C6. The code departs from the claim on the kind of the failure. The identifier below is
  well formed and no document has it: the collection is left as it is, but the handler
  throws a plain \<^verbatim>\<open>Error\<close> where the claim has a 404 not-found failure, and where
  \<^verbatim>\<open>PUT /students/:id\<close> (lines 365-369) answers the same identifier with a
  \<^verbatim>\<open>Response\<close> of status 404.
\<close>

theorem delete_students_missing_no_404:
  "delete_students ''65f0000000000000000000a3'' [anne, bob]
     = (Thrown ''Can't find this student to delete.'', [anne, bob])
   \<and> put_students ''65f0000000000000000000a3'' nameless [anne, bob]
     = (Response 404 ''Student not found'', [anne, bob])"
  by (simp add: delete_students_def put_students_def findOne_def ObjectId_def is_hex_def
       to_lower_def upper_letters_def lower_letters_def anne_def bob_def nameless_def)

section \<open>Create without a first name\<close>

text \<open>
  C7, amended. A create request whose \<^verbatim>\<open>firstname\<close> is empty is treated like any
  other create request: when a stored document has its \<^verbatim>\<open>student_id\<close>, the answer is
  the uniqueness failure (the 400 with \<^verbatim>\<open>Student ID already exists\<close>) and nothing is
  persisted; when none has (and the generated identifier is new), the document is
  persisted with the empty \<^verbatim>\<open>firstname\<close> and returned.
\<close>

theorem post_students_empty_firstname:
  "firstname body = [] \<longrightarrow>
     ((\<exists>d\<in>set docs. student_id d = student_id body) \<longrightarrow>
        post_students new_id body docs = (Response 400 ''Student ID already exists'', docs))
     \<and> ((\<forall>d\<in>set docs. student_id d \<noteq> student_id body) \<and> new_id \<notin> oid ` set docs \<longrightarrow>
        post_students new_id body docs =
          (Returned \<lparr>student_id = student_id body, firstname = [],
                      lastname = lastname body, nickname = nickname body, oid = new_id\<rparr>,
           docs @ [\<lparr>student_id = student_id body, firstname = [],
                      lastname = lastname body, nickname = nickname body, oid = new_id\<rparr>]))"
  using post_students_fresh[of docs body new_id] post_students_conflict[of docs body new_id]
  by (auto simp: with_id_def)

theorem post_students_empty_firstname_witness:
  "firstname nameless = []
   \<and> post_students ''65f0000000000000000000a4'' nameless [anne]
     = (Returned \<lparr>student_id = ''67100002'', firstname = [], lastname = ''Doe'',
                nickname = [], oid = ''65f0000000000000000000a4''\<rparr>,
        [anne, \<lparr>student_id = ''67100002'', firstname = [], lastname = ''Doe'',
                nickname = [], oid = ''65f0000000000000000000a4''\<rparr>])
   \<and> post_students ''65f0000000000000000000a4''
        \<lparr>student_id = ''67101337'', firstname = [], lastname = ''Doe'', nickname = []\<rparr> [anne]
     = (Response 400 ''Student ID already exists'', [anne])"
proof -
  have "post_students ''65f0000000000000000000a4'' nameless [anne]
     = (Returned \<lparr>student_id = ''67100002'', firstname = [], lastname = ''Doe'',
                nickname = [], oid = ''65f0000000000000000000a4''\<rparr>,
        [anne, \<lparr>student_id = ''67100002'', firstname = [], lastname = ''Doe'',
                nickname = [], oid = ''65f0000000000000000000a4''\<rparr>])"
    using post_students_empty_firstname[of nameless "[anne]" "''65f0000000000000000000a4''"]
    by (simp add: nameless_def anne_def)
  moreover have "post_students ''65f0000000000000000000a4''
        \<lparr>student_id = ''67101337'', firstname = [], lastname = ''Doe'', nickname = []\<rparr> [anne]
     = (Response 400 ''Student ID already exists'', [anne])"
    using post_students_empty_firstname[of
        "\<lparr>student_id = ''67101337'', firstname = [], lastname = ''Doe'', nickname = []\<rparr>"
        "[anne]" "''65f0000000000000000000a4''"]
    by (simp add: anne_def)
  ultimately show ?thesis by (simp add: nameless_def)
qed

text \<open>
  The claim as it stands fails: the request below has an empty \<^verbatim>\<open>firstname\<close>, and it
  is persisted.
\<close>

theorem post_students_no_validation:
  "firstname nameless = []
   \<and> post_students ''65f0000000000000000000a4'' nameless []
     = (Returned \<lparr>student_id = ''67100002'', firstname = [], lastname = ''Doe'',
                nickname = [], oid = ''65f0000000000000000000a4''\<rparr>,
        [\<lparr>student_id = ''67100002'', firstname = [], lastname = ''Doe'',
                nickname = [], oid = ''65f0000000000000000000a4''\<rparr>])"
  by (simp add: nameless_def post_students_def findOne_def insertOne_def with_id_def)

section \<open>Page navigation\<close>

text \<open>
  C8, amended. Whatever the state of the coordinator and the number \<open>n\<close>:
  \<^verbatim>\<open>handlePageChange(n)\<close> leaves the state as it is and no request is issued when
  \<open>n < 1\<close> or \<open>n > totalPages\<close> or the coordinator is busy (so \<open>0\<close>, a negative
  number and \<open>totalPages + 1\<close> are refused); otherwise it sets the page to \<open>n\<close>,
  changes nothing else, and one fetch for the page \<open>n\<close> follows when \<open>n\<close> is not the
  page the coordinator is on already (none follows when it is: no dependency of the
  effect has changed).
\<close>

theorem handlePageChange_guard:
  "((n < 1 \<or> n > int (totalPages (app_pagination s)) \<or> isLoading s) \<longrightarrow>
       handlePageChange n s = s \<and> fetch_effect s (handlePageChange n s) = [])
   \<and> (\<not> (n < 1 \<or> n > int (totalPages (app_pagination s)) \<or> isLoading s) \<longrightarrow>
       handlePageChange n s = s\<lparr>app_pagination := (app_pagination s)\<lparr>page := nat n\<rparr>\<rparr>
       \<and> page (app_pagination (handlePageChange n s)) = nat n
       \<and> fetch_effect s (handlePageChange n s) =
           (if nat n = page (app_pagination s) then [] else [fetchStudents (handlePageChange n s)]))"
  by (auto simp: handlePageChange_def fetch_effect_def fetch_deps_def)

theorem handlePageChange_guard_witness:
  "handlePageChange 0 settled = settled \<and> fetch_effect settled (handlePageChange 0 settled) = []
   \<and> handlePageChange (- 1) settled = settled
   \<and> handlePageChange 4 settled = settled
   \<and> handlePageChange 3 (settled\<lparr>isLoading := True\<rparr>) = settled\<lparr>isLoading := True\<rparr>
   \<and> page (app_pagination (handlePageChange 3 settled)) = 3
   \<and> fetch_effect settled (handlePageChange 3 settled) = [GetStudents 3 2]"
proof -
  have "handlePageChange 0 settled = settled \<and> fetch_effect settled (handlePageChange 0 settled) = []"
    using handlePageChange_guard[of 0 settled] by auto
  moreover have "handlePageChange (- 1) settled = settled"
    using handlePageChange_guard[of "- 1" settled] by simp
  moreover have "handlePageChange 4 settled = settled"
    using handlePageChange_guard[of 4 settled] by (simp add: settled_def)
  moreover have "handlePageChange 3 (settled\<lparr>isLoading := True\<rparr>) = settled\<lparr>isLoading := True\<rparr>"
    using handlePageChange_guard[of 3 "settled\<lparr>isLoading := True\<rparr>"] by simp
  moreover have "page (app_pagination (handlePageChange 3 settled)) = 3
     \<and> fetch_effect settled (handlePageChange 3 settled) = [GetStudents 3 2]"
    using handlePageChange_guard[of 3 settled]
    by (auto simp: settled_def fetchStudents_def trim_def)
  ultimately show ?thesis by blast
qed

text \<open>
  The claim as it stands fails on the page the coordinator is on: \<open>2\<close> passes the guard
  and no fetch follows.
\<close>

theorem handlePageChange_same_page_no_fetch:
  "\<not> ((2::int) < 1 \<or> 2 > int (totalPages (app_pagination settled)) \<or> isLoading settled)
   \<and> fetch_effect settled (handlePageChange 2 settled) = []"
  by (simp add: settled_def handlePageChange_def fetch_effect_def fetch_deps_def)

section \<open>Search\<close>






lemma regex_test_None: "re \<noteq> [] \<Longrightarrow> regex_test re s = None \<longleftrightarrow> \<not> list_all printable s"
  by (simp add: regex_test_def)


lemma searchQuery_empty: "searchQuery [] d = Some True"
  by (simp add: searchQuery_def regex_test_def)


















text \<open>
  C3, amended. Whatever the collection, the page and the limit, the search handler with
  the empty text returns what the list handler returns for the same page and limit.
\<close>

theorem search_empty_text_is_list:
  "get_students_search [] qpage qlimit docs = Some (get_students qpage qlimit docs)"
  by (simp add: get_students_search_def get_students_def searchQuery_empty list_all_iff)


theorem search_empty_text_is_list_witness:
  "get_students_search [] None None [anne, bob]
     = Some (Returned \<lparr>students = [anne, bob],
          pagination = \<lparr>total = 2, page = 1, limit = 10, totalPages = 1\<rparr>\<rparr>)"
  using search_empty_text_is_list[of None None "[anne, bob]"]
  by (simp add: get_students_def paginate_def or_default_def find_skip_limit_def
       countDocuments_def math_ceil_div_eq)

text \<open>
  The claim as it stands fails on a text of white space, whether it arrives decoded or
  as \<^verbatim>\<open>%20\<close>: the search returns the one record with a space in a field, the list
  returns both records.
\<close>

theorem search_whitespace_is_not_list:
  "get_students_search '' '' None None [anne, bob]
       = Some (Returned \<lparr>students = [bob],
            pagination = \<lparr>total = 1, page = 1, limit = 10, totalPages = 1\<rparr>\<rparr>)
   \<and> get_students_search ''%20'' None None [anne, bob]
       = Some (Returned \<lparr>students = [bob],
            pagination = \<lparr>total = 1, page = 1, limit = 10, totalPages = 1\<rparr>\<rparr>)
   \<and> get_students None None [anne, bob]
       = Returned \<lparr>students = [anne, bob],
            pagination = \<lparr>total = 2, page = 1, limit = 10, totalPages = 1\<rparr>\<rparr>"
proof -
  have sp: "searchQuery [Lit CHR '' ''] anne = Some False"
           "searchQuery [Lit CHR '' ''] bob = Some True"
    by (simp_all add: searchQuery_def regex_test_def anne_def bob_def printable_def
         to_lower_def upper_letters_def lower_letters_def)
  have d: "decodeURIComponent ''%20'' = Some (Inr '' '')"
    by code_simp
  have r: "RegExp_i '' '' = Some [Lit CHR '' '']"
    by (simp add: syntax_chars_def printable_def)
  have "get_students_search '' '' None None [anne, bob]
       = Some (Returned \<lparr>students = [bob],
            pagination = \<lparr>total = 1, page = 1, limit = 10, totalPages = 1\<rparr>\<rparr>)"
    unfolding get_students_search_def
    by (simp add: r sp paginate_def or_default_def find_skip_limit_def countDocuments_def
         math_ceil_div_eq del: RegExp_i.simps not_None_eq)
  moreover have "get_students_search ''%20'' None None [anne, bob]
       = Some (Returned \<lparr>students = [bob],
            pagination = \<lparr>total = 1, page = 1, limit = 10, totalPages = 1\<rparr>\<rparr>)"
    unfolding get_students_search_def d
    by (simp add: r sp paginate_def or_default_def find_skip_limit_def countDocuments_def
         math_ceil_div_eq del: RegExp_i.simps not_None_eq)
  moreover have "get_students None None [anne, bob]
       = Returned \<lparr>students = [anne, bob],
            pagination = \<lparr>total = 2, page = 1, limit = 10, totalPages = 1\<rparr>\<rparr>"
    by (simp add: get_students_def paginate_def or_default_def find_skip_limit_def
         countDocuments_def math_ceil_div_eq)
  ultimately show ?thesis by blast
qed

section \<open>Debounced search\<close>

lemma page_one_update: "page p = 1 \<Longrightarrow> p\<lparr>page := 1\<rparr> = p"
  by (cases p) simp

lemma commit_idle:
  assumes "commit prev cur = (r1, c1)" and "commit cur c1 = (r2, c2)"
  shows "commit c1 c2 = ([], c2)"
proof -
  have c2: "c2 = (if r2 \<noteq> [] then c1\<lparr>isLoading := True\<rparr> else c1)"
    using assms(1,2)
    by (auto simp: commit_def Let_def page_reset_effect_def split: if_splits)
  then have "fetch_deps c2 = fetch_deps c1"
    and "(debouncedSearchText c2, searchText c2) = (debouncedSearchText c1, searchText c1)"
    by (simp_all add: fetch_deps_def)
  then show ?thesis
    by (simp add: commit_def Let_def fetch_effect_def page_reset_effect_def)
qed

lemma step_Input_first_page:
  "page (app_pagination s) = 1 \<Longrightarrow> step (Input t) s = ([], s\<lparr>searchText := t\<rparr>)"
  by (simp add: settle_def commit_def Let_def handleSearchChange_def fetch_effect_def
        fetch_deps_def page_reset_effect_def page_one_update)

lemma run_Inputs_first_page:
  "page (app_pagination s) = 1 \<Longrightarrow> texts \<noteq> [] \<Longrightarrow>
   run (map Input texts) s = ([], s\<lparr>searchText := last texts\<rparr>)"
proof (induction texts arbitrary: s)
  case Nil
  then show ?case by simp
next
  case (Cons t ts)
  show ?case
  proof (cases ts)
    case Nil
    then show ?thesis using Cons.prems(1) by (simp add: step_Input_first_page del: step.simps)
  next
    case (Cons t' ts')
    have "page (app_pagination (s\<lparr>searchText := t\<rparr>)) = 1" using Cons.prems(1) by simp
    from Cons.IH[OF this] Cons have
      "run (map Input ts) (s\<lparr>searchText := t\<rparr>) = ([], s\<lparr>searchText := last ts\<rparr>)" by simp
    then show ?thesis using Cons.prems(1) Cons
      by (simp add: step_Input_first_page del: step.simps)
  qed
qed

lemma run_append:
  "run (es @ es') s =
     (case run es s of (r1, s1) \<Rightarrow> (case run es' s1 of (r2, s2) \<Rightarrow> (r1 @ r2, s2)))"
  by (induction es arbitrary: s) (auto split: prod.splits)

lemma step_Quiet:
  "\<not> isLoading s \<Longrightarrow>
   step Quiet s =
     (if searchText s = debouncedSearchText s then ([], s)
      else ([fetchStudents (s\<lparr>debouncedSearchText := searchText s\<rparr>)],
            s\<lparr>debouncedSearchText := searchText s, isLoading := True\<rparr>))"
  by (auto simp: settle_def commit_def Let_def useDebounce_elapsed_def fetch_effect_def
        fetch_deps_def page_reset_effect_def)

lemma step_Input_resets_page:
  "t \<noteq> searchText s \<Longrightarrow> t \<noteq> debouncedSearchText s \<Longrightarrow>
   page (app_pagination (snd (step (Input t) s))) = 1"
  by (auto simp: settle_def commit_def Let_def handleSearchChange_def fetch_effect_def
        fetch_deps_def page_reset_effect_def)

text \<open>
  C9, amended. For every burst of changes of the raw search text with no quiet period
  between them, begun on page 1 with no request in flight: during the burst the
  debounced text stays as it was and no request is issued; when the quiet period ends
  the debounced text takes the final text, and exactly one read is issued if the final
  text differs from the debounced text of before (none if it is the same), a search
  carrying the trimmed final text when that is not empty and the list otherwise, for
  page 1. And, in every state, a change of the raw text that leaves it different from
  the debounced text sets the current page to 1.
\<close>

theorem debounce_burst:
  assumes "page (app_pagination s) = 1" and "\<not> isLoading s" and "texts \<noteq> []"
  shows "run (map Input texts) s = ([], s\<lparr>searchText := last texts\<rparr>)
       \<and> run (map Input texts @ [Quiet]) s =
           (if last texts = debouncedSearchText s then ([], s\<lparr>searchText := last texts\<rparr>)
            else ([if trim (last texts) \<noteq> []
                   then GetStudentsSearch (trim (last texts)) 1 (limit (app_pagination s))
                   else GetStudents 1 (limit (app_pagination s))],
                  s\<lparr>searchText := last texts, debouncedSearchText := last texts,
                    isLoading := True\<rparr>))
       \<and> (\<forall>s' t. t \<noteq> searchText s' \<and> t \<noteq> debouncedSearchText s' \<longrightarrow>
             page (app_pagination (snd (step (Input t) s'))) = 1)"
proof -
  have burst: "run (map Input texts) s = ([], s\<lparr>searchText := last texts\<rparr>)"
    using assms(1,3) by (rule run_Inputs_first_page)
  have idle: "\<not> isLoading (s\<lparr>searchText := last texts\<rparr>)" using assms(2) by simp
  have "run (map Input texts @ [Quiet]) s = step Quiet (s\<lparr>searchText := last texts\<rparr>)"
    by (simp add: run_append burst split: prod.splits)
  also have "\<dots> =
           (if last texts = debouncedSearchText s then ([], s\<lparr>searchText := last texts\<rparr>)
            else ([if trim (last texts) \<noteq> []
                   then GetStudentsSearch (trim (last texts)) 1 (limit (app_pagination s))
                   else GetStudents 1 (limit (app_pagination s))],
                  s\<lparr>searchText := last texts, debouncedSearchText := last texts,
                    isLoading := True\<rparr>))"
    unfolding step_Quiet[OF idle] using assms(1) by (simp add: fetchStudents_def)
  finally have quiet: "run (map Input texts @ [Quiet]) s =
           (if last texts = debouncedSearchText s then ([], s\<lparr>searchText := last texts\<rparr>)
            else ([if trim (last texts) \<noteq> []
                   then GetStudentsSearch (trim (last texts)) 1 (limit (app_pagination s))
                   else GetStudents 1 (limit (app_pagination s))],
                  s\<lparr>searchText := last texts, debouncedSearchText := last texts,
                    isLoading := True\<rparr>))" .
  from burst quiet step_Input_resets_page show ?thesis by blast
qed

theorem debounce_burst_witness:
  "page (app_pagination first_page) = 1 \<and> \<not> isLoading first_page
   \<and> run (map Input [''a'', ''an'', ''ann '']) first_page
       = ([], first_page\<lparr>searchText := ''ann ''\<rparr>)
   \<and> run (map Input [''a'', ''an'', ''ann ''] @ [Quiet]) first_page
       = ([GetStudentsSearch ''ann'' 1 2],
          first_page\<lparr>searchText := ''ann '', debouncedSearchText := ''ann '', isLoading := True\<rparr>)
   \<and> page (app_pagination (snd (step (Input ''ab'') searching))) = 1"
proof -
  have a: "page (app_pagination first_page) = 1" "\<not> isLoading first_page"
    by (simp_all add: first_page_def)
  have t: "trim ''ann '' = ''ann''"
    by (simp add: trim_def is_space_def space1_def space3_def)
  have d: "last [''a'', ''an'', ''ann ''] \<noteq> debouncedSearchText first_page"
    "limit (app_pagination first_page) = 2"
    by (simp_all add: first_page_def)
  have "run (map Input [''a'', ''an'', ''ann '']) first_page
       = ([], first_page\<lparr>searchText := ''ann ''\<rparr>)"
    using debounce_burst[OF a, of "[''a'', ''an'', ''ann '']"] by simp
  moreover have "run (map Input [''a'', ''an'', ''ann ''] @ [Quiet]) first_page
       = ([GetStudentsSearch ''ann'' 1 2],
          first_page\<lparr>searchText := ''ann '', debouncedSearchText := ''ann '', isLoading := True\<rparr>)"
    using debounce_burst[OF a, of "[''a'', ''an'', ''ann '']"] d t by simp
  moreover have "page (app_pagination (snd (step (Input ''ab'') searching))) = 1"
    using debounce_burst[OF a, of "[''a'']"] by (simp add: searching_def)
  ultimately show ?thesis using a by blast
qed

text \<open>
  The claim as it stands fails on a page other than the first. The coordinator is on
  page 2 of the search for \<^verbatim>\<open>a\<close>, and the operator types \<^verbatim>\<open>b\<close>: the page reset of
  lines 96-100 changes the page, and the effect of lines 102-106 at once issues a search
  that carries the text of before, \<^verbatim>\<open>a\<close>. If the quiet period ends while that request
  is in flight, this is the only request; if its response has arrived, a second search
  follows with the final text.
\<close>

theorem debounce_stale_read:
  "run [Input ''ab''] searching
     = ([GetStudentsSearch ''a'' 1 2],
        searching\<lparr>searchText := ''ab'', isLoading := True,
          app_pagination := \<lparr>total = 3, page = 1, limit = 2, totalPages = 2\<rparr>\<rparr>)
   \<and> fst (run [Input ''ab'', Quiet] searching) = [GetStudentsSearch ''a'' 1 2]
   \<and> fst (run [Input ''ab'',
                 FetchDone \<lparr>students = [anne, bob],
                   pagination = \<lparr>total = 3, page = 1, limit = 2, totalPages = 2\<rparr>\<rparr>,
                 Quiet] searching)
       = [GetStudentsSearch ''a'' 1 2, GetStudentsSearch ''ab'' 1 2]"
proof -
  let ?p1 = "\<lparr>total = 3, page = 1, limit = 2, totalPages = 2\<rparr>"
  let ?typed = "\<lparr>app_students = [chai], searchText = ''ab'', debouncedSearchText = ''a'',
     isLoading = True, app_pagination = ?p1\<rparr>"
  let ?answered = "\<lparr>app_students = [anne, bob], searchText = ''ab'', debouncedSearchText = ''a'',
     isLoading = False, app_pagination = ?p1\<rparr>"
  have t: "trim ''a'' = ''a''" "trim ''ab'' = ''ab''"
    by (simp_all add: trim_def is_space_def space1_def space3_def)
  have 1: "step (Input ''ab'') searching = ([GetStudentsSearch ''a'' 1 2], ?typed)"
    by (simp add: searching_def settle_def commit_def Let_def handleSearchChange_def
          fetch_effect_def fetch_deps_def page_reset_effect_def fetchStudents_def t)
  have 2: "step Quiet ?typed = ([], ?typed\<lparr>debouncedSearchText := ''ab''\<rparr>)"
    by (simp add: settle_def commit_def Let_def useDebounce_elapsed_def
          fetch_effect_def fetch_deps_def page_reset_effect_def)
  have 3: "step (FetchDone \<lparr>students = [anne, bob], pagination = ?p1\<rparr>) ?typed = ([], ?answered)"
    by (simp add: settle_def commit_def Let_def fetch_done_def
          fetch_effect_def fetch_deps_def page_reset_effect_def)
  have 4: "step Quiet ?answered = ([GetStudentsSearch ''ab'' 1 2],
               ?answered\<lparr>debouncedSearchText := ''ab'', isLoading := True\<rparr>)"
    by (simp add: settle_def commit_def Let_def useDebounce_elapsed_def
          fetch_effect_def fetch_deps_def page_reset_effect_def fetchStudents_def t)
  have "run [Input ''ab''] searching = ([GetStudentsSearch ''a'' 1 2], ?typed)"
    by (simp add: 1 del: step.simps One_nat_def)
  moreover have "?typed = searching\<lparr>searchText := ''ab'', isLoading := True,
          app_pagination := \<lparr>total = 3, page = 1, limit = 2, totalPages = 2\<rparr>\<rparr>"
    by (simp add: searching_def)
  moreover have "fst (run [Input ''ab'', Quiet] searching) = [GetStudentsSearch ''a'' 1 2]"
    by (simp add: 1 2 del: step.simps One_nat_def)
  moreover have "fst (run [Input ''ab'',
                 FetchDone \<lparr>students = [anne, bob], pagination = ?p1\<rparr>, Quiet] searching)
       = [GetStudentsSearch ''a'' 1 2, GetStudentsSearch ''ab'' 1 2]"
    by (simp add: 1 3 4 del: step.simps One_nat_def)
  ultimately show ?thesis by simp
qed

end
